theory Spec2Isabelle
  imports Main
begin

section \<open>Swagger documentation generation and verification\<close>

text \<open>
  A shallow embedding of \<^verbatim>\<open>tools/codegen/pkg/swaggerdocs/swaggerdocs.go\<close>: the two
  functions \<^verbatim>\<open>generateSwaggerDocs\<close> and \<^verbatim>\<open>verifySwaggerDocs\<close> and the constants
  they use.

  The package calls into three libraries that are no part of it: the documentation
  checker and renderer of \<^verbatim>\<open>k8s.io/apimachinery/pkg/runtime\<close>, the source formatter
  \<^verbatim>\<open>go/format\<close>, and \<^verbatim>\<open>ioutil.ReadFile\<close> and \<^verbatim>\<open>klog\<close>. The first three are
  parameters of the model (a record of functions); the file system and the log are an
  explicit world state.
\<close>

subsection \<open>Bytes, errors and the outside world\<close>

text \<open>
  A Go \<^verbatim>\<open>[]byte\<close> and a Go \<^verbatim>\<open>string\<close> are both sequences of bytes: \<open>char list\<close>.
  An \<^verbatim>\<open>error\<close> of a library is kept as its message.
\<close>

type_synonym bytes = string

type_synonym lib_error = string

text \<open>
  The errors of \<^verbatim>\<open>generateSwaggerDocs\<close>, each wrapping (\<^verbatim>\<open>%w\<close>) a library error:
  \<^item> \<open>RenderError e\<close> is \<^verbatim>\<open>"error generating swagger docs for types: %w"\<close>;
  \<^item> \<open>FormatError e\<close> is \<^verbatim>\<open>"could not format output data: %w"\<close>.
\<close>

datatype generate_error = RenderError lib_error | FormatError lib_error

text \<open>
  The errors of \<^verbatim>\<open>verifySwaggerDocs\<close>:
  \<^item> \<open>CheckerError e\<close> is \<^verbatim>\<open>"could not verify existing docs: %w"\<close>;
  \<^item> \<open>MissingDocsError rc listing\<close> is
    \<^verbatim>\<open>"missing swagger docs for the following %d fields:\n%s"\<close>;
  \<^item> \<open>ReadError e\<close> is \<^verbatim>\<open>"error reading existing swagger docs file: %w"\<close>;
  \<^item> \<open>GenerateError e\<close> is \<^verbatim>\<open>"error generating swagger docs: %w"\<close>;
  \<^item> \<open>StaleError\<close> is
    \<^verbatim>\<open>"swagger docs are out of date, please regenerate the swagger docs"\<close>.
\<close>

datatype verify_error =
    CheckerError lib_error
  | MissingDocsError int bytes
  | ReadError lib_error
  | GenerateError generate_error
  | StaleError

text \<open>
  \<open>MissingEntries rc listing\<close> is the warning
  \<^verbatim>\<open>"Existing swagger docs are missing %d entries:\n%s"\<close>.
\<close>

datatype warning = MissingEntries int bytes

text \<open>
  The world outside the process: what reading each path gives (the bytes of the file, or
  the error of the operating system for a path that cannot be read), and the warnings
  logged so far, oldest first.
\<close>

record world =
  files :: "string \<Rightarrow> lib_error + bytes"
  klog :: "warning list"

definition ReadFile :: "world \<Rightarrow> string \<Rightarrow> lib_error + bytes" where
  "ReadFile w filePath = files w filePath"

definition klog_Warningf :: "world \<Rightarrow> int \<Rightarrow> bytes \<Rightarrow> world" where
  "klog_Warningf w rc listing = w\<lparr>klog := klog w @ [MissingEntries rc listing]\<rparr>"

text \<open>
  The library functions, over any type \<open>'r\<close> of documentation records
  (\<^verbatim>\<open>[]kruntime.KubeTypes\<close>, which this package only passes on). Both runtime
  functions take the records and an \<^verbatim>\<open>io.Writer\<close>; the records are a slice, shared
  with the caller, so each function returns the records as it leaves them together with
  the bytes it wrote:
  \<^item> \<open>VerifySwaggerDocsExist docs = (docs', written, rc, err)\<close>;
  \<^item> \<open>WriteSwaggerDocFunc docs = (docs', written, err)\<close>;
  \<^item> \<open>format_Source src\<close> is the formatted source or the error.

  The writer each runtime function is given is an in-memory buffer
  (\<^verbatim>\<open>bytes.NewBuffer(nil)\<close>), to which an \<^verbatim>\<open>io.Writer\<close> can only append: the
  checker's buffer is empty before and holds what the checker wrote after; the
  renderer's holds the package line and the header before, and these followed by what
  the renderer wrote after.
  The count \<open>rc\<close> is a Go \<^verbatim>\<open>int\<close>; the code only compares it with 0 and prints it.
\<close>

record 'r services =
  VerifySwaggerDocsExist :: "'r \<Rightarrow> 'r \<times> bytes \<times> int \<times> lib_error option"
  WriteSwaggerDocFunc :: "'r \<Rightarrow> 'r \<times> bytes \<times> lib_error option"
  format_Source :: "bytes \<Rightarrow> lib_error + bytes"

subsection \<open>Constants\<close>

definition headerContent :: bytes where
  "headerContent =
    ''// This file contains a collection of methods that can be used from go-restful to\<newline>'' @
    ''// generate Swagger API documentation for its models. Please read this PR for more\<newline>'' @
    ''// information on the implementation: https://github.com/emicklei/go-restful/pull/215\<newline>'' @
    ''//\<newline>'' @
    ''// TODOs are ignored from the parser (e.g. TODO(andronat):... || TODO:...) if and only if\<newline>'' @
    ''// they are on one line! For multiple line or blocks that you want to ignore use ---.\<newline>'' @
    ''// Any context after a --- is ignored.\<newline>'' @
    ''//\<newline>'' @
    ''// Those methods can be generated by using hack/update-swagger-docs.sh\<newline>'' @
    ''\<newline>'' @
    ''// AUTO-GENERATED FUNCTIONS START HERE\<newline>''"

definition footerContent :: bytes where
  "footerContent = ''// AUTO-GENERATED FUNCTIONS END HERE\<newline>''"

definition DefaultOutputFileName :: string where
  "DefaultOutputFileName = ''zz_generated.swagger_doc_generated.go''"

definition typesGlob :: string where
  "typesGlob = ''types*.go''"

subsection \<open>Generation\<close>

text \<open>
  The text handed to the formatter: the package line, the header, what the renderer
  wrote, the footer, in the order of the four writes to the buffer.
\<close>

definition assembled :: "string \<Rightarrow> bytes \<Rightarrow> bytes" where
  "assembled packageName rendered =
     (''package '' @ packageName @ ''\<newline>'') @ headerContent @ rendered @ footerContent"

text \<open>
  \<^verbatim>\<open>generateSwaggerDocs\<close>. The result is the records as the renderer leaves them and
  either the error (Go: \<^verbatim>\<open>nil, err\<close>) or the formatted bytes (Go: \<^verbatim>\<open>formattedOut, nil\<close>).
\<close>

definition generateSwaggerDocs ::
    "'r services \<Rightarrow> string \<Rightarrow> 'r \<Rightarrow> 'r \<times> (generate_error + bytes)" where
  "generateSwaggerDocs env packageName docsForTypes =
     (let buf = [];
          buf = buf @ (''package '' @ packageName @ ''\<newline>'');
          buf = buf @ headerContent
      in case WriteSwaggerDocFunc env docsForTypes of
           (docs', written, Some err) \<Rightarrow> (docs', Inl (RenderError err))
         | (docs', written, None) \<Rightarrow>
             (let buf = buf @ written;
                  buf = buf @ footerContent
              in case format_Source env buf of
                   Inl err \<Rightarrow> (docs', Inl (FormatError err))
                 | Inr formattedOut \<Rightarrow> (docs', Inr formattedOut)))"

subsection \<open>Verification\<close>

text \<open>
  \<^verbatim>\<open>verifySwaggerDocs\<close>. The result is the world and the records after the call, and
  the error (\<open>None\<close> is Go's \<^verbatim>\<open>nil\<close>: the documentation is up to date).
  \<^verbatim>\<open>reflect.DeepEqual\<close> on two \<^verbatim>\<open>[]byte\<close> that a successful \<^verbatim>\<open>ReadFile\<close> and a
  successful \<^verbatim>\<open>format.Source\<close> return (neither is a nil slice) is equality of the
  byte sequences. The source tests \<^verbatim>\<open>rc > 0\<close> and, inside it, \<^verbatim>\<open>enforceComments\<close>:
  it returns when both hold, and logs the warning and goes on when only the first does.
\<close>

definition verifySwaggerDocs ::
    "'r services \<Rightarrow> world \<Rightarrow> string \<Rightarrow> string \<Rightarrow> 'r \<Rightarrow> bool
       \<Rightarrow> world \<times> 'r \<times> verify_error option" where
  "verifySwaggerDocs env w packageName filePath docsForTypes enforceComments =
     (case VerifySwaggerDocsExist env docsForTypes of
        (docs1, buf, rc, Some err) \<Rightarrow> (w, docs1, Some (CheckerError err))
      | (docs1, buf, rc, None) \<Rightarrow>
          if rc > 0 \<and> enforceComments then (w, docs1, Some (MissingDocsError rc buf))
          else
            (let w1 = (if rc > 0 then klog_Warningf w rc buf else w)
             in case ReadFile w1 filePath of
                  Inl err \<Rightarrow> (w1, docs1, Some (ReadError err))
                | Inr data \<Rightarrow>
                    (case generateSwaggerDocs env packageName docs1 of
                       (docs2, Inl err) \<Rightarrow> (w1, docs2, Some (GenerateError err))
                     | (docs2, Inr generatedData) \<Rightarrow>
                         if data \<noteq> generatedData then (w1, docs2, Some StaleError)
                         else (w1, docs2, None))))"

abbreviation world_after :: "world \<times> 'r \<times> verify_error option \<Rightarrow> world" where
  "world_after res \<equiv> fst res"

abbreviation records_after :: "world \<times> 'r \<times> verify_error option \<Rightarrow> 'r" where
  "records_after res \<equiv> fst (snd res)"

abbreviation outcome :: "world \<times> 'r \<times> verify_error option \<Rightarrow> verify_error option" where
  "outcome res \<equiv> snd (snd res)"

text \<open>
  The baseline file is created and updated by a build step outside this package, which
  writes the generated bytes to the path.
\<close>

definition WriteFile :: "world \<Rightarrow> string \<Rightarrow> bytes \<Rightarrow> world" where
  "WriteFile w filePath data = w\<lparr>files := (files w)(filePath := Inr data)\<rparr>"

subsection \<open>Documentation records and the completeness check\<close>

text \<open>
  Modelled from the spec: the type of the documentation records
  (\<^verbatim>\<open>kruntime.KubeTypes\<close> is declared in the library, not in this package). A
  DocumentationRecord is a type name and an ordered sequence of pairs of a field name and
  its description.
\<close>

record DocumentationRecord =
  type_name :: string
  doc_fields :: "(string \<times> string) list"

text \<open>
  Modelled from the spec: what the completeness check counts (the checker itself is the
  library's \<^verbatim>\<open>VerifySwaggerDocsExist\<close>). A field is undocumented when its description
  is empty; the check produces the count of the undocumented fields and a listing of
  them. \<open>undocumented\<close> gives them in order, each with the name of its type.
\<close>

definition undocumented :: "DocumentationRecord list \<Rightarrow> (string \<times> string) list" where
  "undocumented docs =
     concat (map (\<lambda>r. map (\<lambda>f. (type_name r, fst f))
                          (filter (\<lambda>f. snd f = []) (doc_fields r))) docs)"

definition count_undocumented :: "DocumentationRecord list \<Rightarrow> nat" where
  "count_undocumented docs = length (undocumented docs)"

definition has_undocumented :: "DocumentationRecord list \<Rightarrow> bool" where
  "has_undocumented docs = list_ex (\<lambda>r. list_ex (\<lambda>f. snd f = []) (doc_fields r)) docs"

subsection \<open>Stand-ins for the libraries, for the examples\<close>

text \<open>
  Simple services to run the two functions on concrete inputs. The checker reports the
  undocumented fields as the spec describes it, one line per field, and changes nothing.
  The renderer writes one comment line per documented field and changes nothing. The
  formatter returns a source unchanged, and rejects one whose package clause has no name.
\<close>

definition example_check ::
    "DocumentationRecord list \<Rightarrow> DocumentationRecord list \<times> bytes \<times> int \<times> lib_error option" where
  "example_check docs =
     (docs,
      concat (map (\<lambda>(t, f). t @ ''.'' @ f @ ''\<newline>'') (undocumented docs)),
      int (count_undocumented docs),
      None)"

definition example_render ::
    "DocumentationRecord list \<Rightarrow> DocumentationRecord list \<times> bytes \<times> lib_error option" where
  "example_render docs =
     (docs,
      concat (map (\<lambda>r. concat (map (\<lambda>(n, d). ''// '' @ type_name r @ ''.'' @ n @ '': '' @ d @ ''\<newline>'')
                                     (filter (\<lambda>(n, d). d \<noteq> []) (doc_fields r)))) docs),
      None)"

definition example_format :: "bytes \<Rightarrow> lib_error + bytes" where
  "example_format src =
     (if take 9 src = ''package \<newline>'' then Inl ''expected IDENT'' else Inr src)"

definition example_services :: "DocumentationRecord list services" where
  "example_services =
     \<lparr>VerifySwaggerDocsExist = example_check,
      WriteSwaggerDocFunc = example_render,
      format_Source = example_format\<rparr>"

text \<open>A checker and a renderer that fail, as a writer that cannot be written to makes them.\<close>

definition failing_check ::
    "DocumentationRecord list \<Rightarrow> DocumentationRecord list \<times> bytes \<times> int \<times> lib_error option" where
  "failing_check docs = (docs, [], 0, Some ''write failed'')"

definition failing_render ::
    "DocumentationRecord list \<Rightarrow> DocumentationRecord list \<times> bytes \<times> lib_error option" where
  "failing_render docs = (docs, [], Some ''write failed'')"

definition broken_checker_services :: "DocumentationRecord list services" where
  "broken_checker_services = example_services\<lparr>VerifySwaggerDocsExist := failing_check\<rparr>"

definition broken_renderer_services :: "DocumentationRecord list services" where
  "broken_renderer_services = example_services\<lparr>WriteSwaggerDocFunc := failing_render\<rparr>"

text \<open>
  A renderer that changes the records it is given, as the comment in
  \<^verbatim>\<open>verifySwaggerDocs\<close> says generation does: it writes what \<open>example_render\<close>
  writes, and leaves each record with its type name cleared.
\<close>

definition blanking_render ::
    "DocumentationRecord list \<Rightarrow> DocumentationRecord list \<times> bytes \<times> lib_error option" where
  "blanking_render docs =
     (map (\<lambda>r. r\<lparr>type_name := []\<rparr>) docs, fst (snd (example_render docs)), None)"

definition blanking_services :: "DocumentationRecord list services" where
  "blanking_services = example_services\<lparr>WriteSwaggerDocFunc := blanking_render\<rparr>"

text \<open>A world with no file at all, and the records of the examples.\<close>

definition empty_world :: world where
  "empty_world = \<lparr>files = (\<lambda>p. Inl ''no such file or directory''), klog = []\<rparr>"

definition pod_docs :: "DocumentationRecord list" where
  "pod_docs = [\<lparr>type_name = ''Pod'', doc_fields = [(''Spec'', ''desired state'')]\<rparr>]"

definition pod_docs_undocumented :: "DocumentationRecord list" where
  "pod_docs_undocumented =
     [\<lparr>type_name = ''Pod'',
       doc_fields = [(''Spec'', ''desired state''), (''Status'', '''')]\<rparr>]"

definition pod_docs_blanked :: "DocumentationRecord list" where
  "pod_docs_blanked = [\<lparr>type_name = '''', doc_fields = [(''Spec'', ''desired state'')]\<rparr>]"

section \<open>Properties\<close>

subsection \<open>The stages of the two functions\<close>

lemma generate_result:
  assumes "WriteSwaggerDocFunc env docs = (docs', written, err)"
  shows "generateSwaggerDocs env pkg docs =
           (docs',
            case err of
              Some e \<Rightarrow> Inl (RenderError e)
            | None \<Rightarrow>
                (case format_Source env (assembled pkg written) of
                   Inl e \<Rightarrow> Inl (FormatError e)
                 | Inr out \<Rightarrow> Inr out))"
  using assms
  by (simp add: generateSwaggerDocs_def assembled_def split: option.splits sum.splits)

lemma verify_checker_fails:
  assumes "VerifySwaggerDocsExist env docs = (docs1, listing, rc, Some e)"
  shows "verifySwaggerDocs env w pkg path docs enforce = (w, docs1, Some (CheckerError e))"
  using assms by (simp add: verifySwaggerDocs_def)

lemma verify_gate_closed:
  assumes "VerifySwaggerDocsExist env docs = (docs1, listing, rc, None)"
    and "rc > 0" and "enforce"
  shows "verifySwaggerDocs env w pkg path docs enforce =
           (w, docs1, Some (MissingDocsError rc listing))"
  using assms by (simp add: verifySwaggerDocs_def)

text \<open>
  Once the completeness stage lets the call continue, the outcome is that of the last
  three stages: reading the file, generating, comparing.
\<close>

lemma verify_gate_open:
  assumes "VerifySwaggerDocsExist env docs = (docs1, listing, rc, None)"
    and "rc > 0 \<longrightarrow> \<not> enforce"
  shows "outcome (verifySwaggerDocs env w pkg path docs enforce) =
           (case files w path of
              Inl e \<Rightarrow> Some (ReadError e)
            | Inr data \<Rightarrow>
                (case snd (generateSwaggerDocs env pkg docs1) of
                   Inl e \<Rightarrow> Some (GenerateError e)
                 | Inr g \<Rightarrow> if data = g then None else Some StaleError))"
  using assms
  by (auto simp add: verifySwaggerDocs_def ReadFile_def klog_Warningf_def Let_def
      split: sum.splits prod.splits)

lemma verify_gate_open_world:
  assumes "VerifySwaggerDocsExist env docs = (docs1, listing, rc, None)"
    and "rc > 0 \<longrightarrow> \<not> enforce"
  shows "world_after (verifySwaggerDocs env w pkg path docs enforce) =
           (if rc > 0 then klog_Warningf w rc listing else w)"
  using assms
  by (auto simp add: verifySwaggerDocs_def Let_def split: sum.splits prod.splits)

lemma has_undocumented_count: "has_undocumented docs \<longleftrightarrow> 0 < count_undocumented docs"
  by (induction docs)
    (auto simp add: has_undocumented_def count_undocumented_def undocumented_def
      list_ex_iff filter_empty_conv)

lemma has_undocumented_iff:
  "has_undocumented docs \<longleftrightarrow> (\<exists>r \<in> set docs. \<exists>f \<in> set (doc_fields r). snd f = [])"
  by (simp add: has_undocumented_def list_ex_iff)

lemma example_generate:
  "generateSwaggerDocs example_services ''widgets'' pod_docs_undocumented =
     (pod_docs_undocumented,
      Inr (assembled ''widgets'' ''// Pod.Spec: desired state\<newline>''))"
  by (simp add: generateSwaggerDocs_def example_services_def example_render_def
      example_format_def pod_docs_undocumented_def assembled_def)

lemma example_check_undocumented:
  "VerifySwaggerDocsExist example_services pod_docs_undocumented =
     (pod_docs_undocumented, ''Pod.Status\<newline>'', 1, None)"
  by (simp add: example_services_def example_check_def pod_docs_undocumented_def
      count_undocumented_def undocumented_def)

lemma example_has_undocumented: "has_undocumented pod_docs_undocumented"
  by (simp add: has_undocumented_def pod_docs_undocumented_def)

lemma example_count_undocumented: "count_undocumented pod_docs_undocumented = 1"
  by (simp add: pod_docs_undocumented_def count_undocumented_def undocumented_def)

subsection \<open>A failing completeness checker\<close>

text \<open>
  C10. When the completeness checker itself returns an error, \<open>verifySwaggerDocs\<close>
  returns that error wrapped, whether \<open>enforceComments\<close> is true or false. The file
  is not read and nothing is generated: the result is the same for every world, every
  renderer and every formatter, the world is returned as it was, and the records are
  as the checker left them.
\<close>

theorem verify_checker_error:
  assumes "VerifySwaggerDocsExist env docs = (docs1, listing, rc, Some e)"
  shows "verifySwaggerDocs env w pkg path docs True = (w, docs1, Some (CheckerError e)) \<and>
         verifySwaggerDocs env w pkg path docs False = (w, docs1, Some (CheckerError e))"
  using assms by (simp add: verifySwaggerDocs_def)

theorem verify_checker_error_witness:
  "VerifySwaggerDocsExist broken_checker_services pod_docs =
     (pod_docs, [], 0, Some ''write failed'') \<and>
   verifySwaggerDocs broken_checker_services empty_world ''widgets'' DefaultOutputFileName
     pod_docs True = (empty_world, pod_docs, Some (CheckerError ''write failed'')) \<and>
   verifySwaggerDocs broken_checker_services empty_world ''widgets'' DefaultOutputFileName
     pod_docs False = (empty_world, pod_docs, Some (CheckerError ''write failed''))"
proof -
  have chk: "VerifySwaggerDocsExist broken_checker_services pod_docs =
               (pod_docs, [], 0, Some ''write failed'')"
    by (simp add: broken_checker_services_def failing_check_def)
  from verify_checker_error [OF chk] chk show ?thesis by simp
qed

subsection \<open>The completeness gate\<close>

text \<open>
  C3. When a field of the records has an empty description, the checker reports the
  count of such fields with its listing, and \<open>enforceComments\<close> is true,
  \<open>verifySwaggerDocs\<close> returns the MissingDocsError with that count and listing. The
  file is not read, nothing is generated and nothing is compared: the result is the same
  for every world, every path, every renderer and every formatter; the world is
  returned as it was and the records are as the checker left them.
\<close>

theorem verify_missing_docs_enforced:
  assumes "has_undocumented docs"
    and "VerifySwaggerDocsExist env docs =
           (docs1, listing, int (count_undocumented docs), None)"
  shows "verifySwaggerDocs env w pkg path docs True =
           (w, docs1, Some (MissingDocsError (int (count_undocumented docs)) listing))"
proof -
  from assms(1) have "int (count_undocumented docs) > 0"
    by (simp add: has_undocumented_count)
  with assms(2) show ?thesis
    by (rule verify_gate_closed) simp
qed

theorem verify_missing_docs_enforced_witness:
  "has_undocumented pod_docs_undocumented \<and>
   VerifySwaggerDocsExist example_services pod_docs_undocumented =
     (pod_docs_undocumented, ''Pod.Status\<newline>'', int (count_undocumented pod_docs_undocumented), None) \<and>
   verifySwaggerDocs example_services empty_world ''widgets'' DefaultOutputFileName
     pod_docs_undocumented True =
     (empty_world, pod_docs_undocumented, Some (MissingDocsError 1 ''Pod.Status\<newline>''))"
proof -
  have chk: "VerifySwaggerDocsExist example_services pod_docs_undocumented =
     (pod_docs_undocumented, ''Pod.Status\<newline>'', int (count_undocumented pod_docs_undocumented), None)"
    by (simp add: example_check_undocumented example_count_undocumented)
  from verify_missing_docs_enforced [OF example_has_undocumented chk]
  show ?thesis
    using chk by (simp add: example_has_undocumented example_count_undocumented)
qed

text \<open>
  C4. When a field of the records has an empty description, the checker reports the
  count of such fields with its listing, and \<open>enforceComments\<close> is false,
  \<open>verifySwaggerDocs\<close> logs one warning with the count and the listing, and goes on:
  its outcome is that of reading the file, generating and comparing. In particular it
  succeeds when the file holds the regenerated bytes, and it fails with StaleError when
  the file holds other bytes.
\<close>

theorem verify_missing_docs_warned:
  assumes "has_undocumented docs"
    and "VerifySwaggerDocsExist env docs =
           (docs1, listing, int (count_undocumented docs), None)"
  shows "world_after (verifySwaggerDocs env w pkg path docs False) =
           klog_Warningf w (int (count_undocumented docs)) listing \<and>
         outcome (verifySwaggerDocs env w pkg path docs False) =
           (case files w path of
              Inl e \<Rightarrow> Some (ReadError e)
            | Inr data \<Rightarrow>
                (case snd (generateSwaggerDocs env pkg docs1) of
                   Inl e \<Rightarrow> Some (GenerateError e)
                 | Inr g \<Rightarrow> if data = g then None else Some StaleError)) \<and>
         (files w path = Inr data \<and> snd (generateSwaggerDocs env pkg docs1) = Inr data \<longrightarrow>
            outcome (verifySwaggerDocs env w pkg path docs False) = None)"
proof -
  from assms(1) have pos: "int (count_undocumented docs) > 0"
    by (simp add: has_undocumented_count)
  have gate: "int (count_undocumented docs) > 0 \<longrightarrow> \<not> False" by simp
  note out = verify_gate_open [OF assms(2) gate, of w pkg path]
  note wld = verify_gate_open_world [OF assms(2) gate, of w pkg path]
  from pos wld have "world_after (verifySwaggerDocs env w pkg path docs False) =
      klog_Warningf w (int (count_undocumented docs)) listing"
    by simp
  moreover have "files w path = Inr data \<and> snd (generateSwaggerDocs env pkg docs1) = Inr data \<longrightarrow>
      outcome (verifySwaggerDocs env w pkg path docs False) = None"
    using out by simp
  ultimately show ?thesis using out by simp
qed

theorem verify_missing_docs_warned_witness:
  "has_undocumented pod_docs_undocumented \<and>
   VerifySwaggerDocsExist example_services pod_docs_undocumented =
     (pod_docs_undocumented, ''Pod.Status\<newline>'', int (count_undocumented pod_docs_undocumented), None) \<and>
   files (WriteFile empty_world DefaultOutputFileName
            (assembled ''widgets'' ''// Pod.Spec: desired state\<newline>'')) DefaultOutputFileName =
     Inr (assembled ''widgets'' ''// Pod.Spec: desired state\<newline>'') \<and>
   snd (generateSwaggerDocs example_services ''widgets'' pod_docs_undocumented) =
     Inr (assembled ''widgets'' ''// Pod.Spec: desired state\<newline>'') \<and>
   klog (world_after (verifySwaggerDocs example_services
     (WriteFile empty_world DefaultOutputFileName
        (assembled ''widgets'' ''// Pod.Spec: desired state\<newline>''))
     ''widgets'' DefaultOutputFileName pod_docs_undocumented False)) =
     [MissingEntries 1 ''Pod.Status\<newline>''] \<and>
   outcome (verifySwaggerDocs example_services
     (WriteFile empty_world DefaultOutputFileName
        (assembled ''widgets'' ''// Pod.Spec: desired state\<newline>''))
     ''widgets'' DefaultOutputFileName pod_docs_undocumented False) = None"
proof -
  let ?b = "assembled ''widgets'' ''// Pod.Spec: desired state\<newline>''"
  let ?w = "WriteFile empty_world DefaultOutputFileName ?b"
  have chk: "VerifySwaggerDocsExist example_services pod_docs_undocumented =
     (pod_docs_undocumented, ''Pod.Status\<newline>'', int (count_undocumented pod_docs_undocumented), None)"
    by (simp add: example_check_undocumented example_count_undocumented)
  have rd: "files ?w DefaultOutputFileName = Inr ?b"
    by (simp add: WriteFile_def)
  have gen: "snd (generateSwaggerDocs example_services ''widgets'' pod_docs_undocumented) = Inr ?b"
    by (simp add: example_generate)
  have lg: "klog (klog_Warningf ?w 1 ''Pod.Status\<newline>'') = [MissingEntries 1 ''Pod.Status\<newline>'']"
    by (simp add: klog_Warningf_def WriteFile_def empty_world_def)
  from verify_missing_docs_warned [OF example_has_undocumented chk,
      of ?w "''widgets''" DefaultOutputFileName ?b]
  show ?thesis
    using chk rd gen lg by (simp add: example_has_undocumented example_count_undocumented)
qed

subsection \<open>Failures of generation\<close>

text \<open>
  C8. \<open>generateSwaggerDocs\<close> returns no bytes, and the RenderError, when the renderer
  fails on the records; it returns no bytes, and the FormatError, when the renderer
  succeeds and the formatter rejects the text assembled from the package line, the
  header, the rendered records and the footer. It returns bytes in no other case than the
  one where both succeed, and then the bytes are the formatter's.
\<close>

theorem generate_failures:
  "(WriteSwaggerDocFunc env docs = (docs', written, Some e) \<longrightarrow>
      generateSwaggerDocs env pkg docs = (docs', Inl (RenderError e))) \<and>
   (WriteSwaggerDocFunc env docs = (docs', written, None) \<and>
    format_Source env (assembled pkg written) = Inl e \<longrightarrow>
      generateSwaggerDocs env pkg docs = (docs', Inl (FormatError e))) \<and>
   (snd (generateSwaggerDocs env pkg docs) = Inr out \<longrightarrow>
      snd (snd (WriteSwaggerDocFunc env docs)) = None \<and>
      format_Source env (assembled pkg (fst (snd (WriteSwaggerDocFunc env docs)))) = Inr out)"
proof -
  obtain d wr err where r: "WriteSwaggerDocFunc env docs = (d, wr, err)"
    by (cases "WriteSwaggerDocFunc env docs") auto
  show ?thesis
    using generate_result [OF r, of pkg] r
    by (auto split: option.splits sum.splits)
qed

theorem generate_failures_witness:
  "WriteSwaggerDocFunc broken_renderer_services pod_docs =
     (pod_docs, [], Some ''write failed'') \<and>
   generateSwaggerDocs broken_renderer_services ''widgets'' pod_docs =
     (pod_docs, Inl (RenderError ''write failed'')) \<and>
   WriteSwaggerDocFunc example_services pod_docs =
     (pod_docs, ''// Pod.Spec: desired state\<newline>'', None) \<and>
   format_Source example_services (assembled '''' ''// Pod.Spec: desired state\<newline>'') =
     Inl ''expected IDENT'' \<and>
   generateSwaggerDocs example_services '''' pod_docs =
     (pod_docs, Inl (FormatError ''expected IDENT'')) \<and>
   snd (generateSwaggerDocs example_services ''widgets'' pod_docs) =
     Inr (assembled ''widgets'' ''// Pod.Spec: desired state\<newline>'') \<and>
   format_Source example_services (assembled ''widgets''
       (fst (snd (WriteSwaggerDocFunc example_services pod_docs)))) =
     Inr (assembled ''widgets'' ''// Pod.Spec: desired state\<newline>'')"
proof -
  have r1: "WriteSwaggerDocFunc broken_renderer_services pod_docs =
              (pod_docs, [], Some ''write failed'')"
    by (simp add: broken_renderer_services_def failing_render_def)
  have r2: "WriteSwaggerDocFunc example_services pod_docs =
              (pod_docs, ''// Pod.Spec: desired state\<newline>'', None)"
    by (simp add: example_services_def example_render_def pod_docs_def)
  have f2: "format_Source example_services (assembled '''' ''// Pod.Spec: desired state\<newline>'') =
              Inl ''expected IDENT''"
    by (simp add: example_services_def example_format_def assembled_def)
  have g3: "snd (generateSwaggerDocs example_services ''widgets'' pod_docs) =
              Inr (assembled ''widgets'' ''// Pod.Spec: desired state\<newline>'')"
    by (simp add: generateSwaggerDocs_def example_services_def example_render_def
        example_format_def pod_docs_def assembled_def)
  from generate_failures [of broken_renderer_services pod_docs pod_docs "[]"
      "''write failed''" "''widgets''"] r1
  have a: "generateSwaggerDocs broken_renderer_services ''widgets'' pod_docs =
             (pod_docs, Inl (RenderError ''write failed''))"
    by simp
  from generate_failures [of example_services pod_docs pod_docs
      "''// Pod.Spec: desired state\<newline>''" "''expected IDENT''" "''''"] r2 f2
  have b: "generateSwaggerDocs example_services '''' pod_docs =
             (pod_docs, Inl (FormatError ''expected IDENT''))"
    by simp
  from generate_failures [of example_services pod_docs _ _ _ "''widgets''"
      "assembled ''widgets'' ''// Pod.Spec: desired state\<newline>''"] g3
  have c: "format_Source example_services (assembled ''widgets''
             (fst (snd (WriteSwaggerDocFunc example_services pod_docs)))) =
           Inr (assembled ''widgets'' ''// Pod.Spec: desired state\<newline>'')"
    by simp
  from r1 a r2 f2 b g3 c show ?thesis by simp
qed

subsection \<open>Repeated generation\<close>

lemma generate_records:
  "fst (generateSwaggerDocs env pkg docs) = fst (WriteSwaggerDocFunc env docs)"
  by (simp add: generateSwaggerDocs_def split: prod.splits option.splits sum.splits)

lemma blanking_generate_first:
  "generateSwaggerDocs blanking_services ''widgets'' pod_docs =
     (pod_docs_blanked, Inr (assembled ''widgets'' ''// Pod.Spec: desired state\<newline>''))"
  by (simp add: generateSwaggerDocs_def blanking_services_def blanking_render_def
      example_services_def example_render_def example_format_def pod_docs_def
      pod_docs_blanked_def assembled_def)

lemma blanking_generate_second:
  "generateSwaggerDocs blanking_services ''widgets'' pod_docs_blanked =
     (pod_docs_blanked, Inr (assembled ''widgets'' ''// .Spec: desired state\<newline>''))"
  by (simp add: generateSwaggerDocs_def blanking_services_def blanking_render_def
      example_services_def example_render_def example_format_def
      pod_docs_blanked_def assembled_def)

lemma blanked_bytes_differ:
  "assembled ''widgets'' ''// Pod.Spec: desired state\<newline>'' \<noteq>
   assembled ''widgets'' ''// .Spec: desired state\<newline>''"
  by (simp add: assembled_def)




subsection \<open>Files are only read\<close>

text \<open>
  C9. \<open>verifySwaggerDocs\<close> leaves every file as it was, whatever its outcome: the
  files of the world it returns are those of the world it was given (its one effect on
  the world is the warning it may log). \<open>generateSwaggerDocs\<close> is not given the world
  and returns none: it reads and writes no file, and works on its buffer and on the
  records only.
\<close>

theorem verify_files_unchanged:
  "files (world_after (verifySwaggerDocs env w pkg path docs enforce)) = files w"
  by (simp add: verifySwaggerDocs_def klog_Warningf_def Let_def
      split: prod.splits option.splits sum.splits)

subsection \<open>A file that cannot be read\<close>

lemma example_check_documented:
  "VerifySwaggerDocsExist example_services pod_docs = (pod_docs, [], 0, None)"
  by (simp add: example_services_def example_check_def pod_docs_def
      count_undocumented_def undocumented_def)

text \<open>
  C5, as stated, fails: with \<open>enforceComments\<close> true and an undocumented field, the
  call on a path with no file returns the MissingDocsError, not the ReadError, since the
  completeness stage comes before the read.
\<close>

theorem verify_unreadable_enforced_missing_docs:
  "files empty_world DefaultOutputFileName = Inl ''no such file or directory'' \<and>
   outcome (verifySwaggerDocs example_services empty_world ''widgets'' DefaultOutputFileName
     pod_docs_undocumented True) = Some (MissingDocsError 1 ''Pod.Status\<newline>'')"
proof -
  have "verifySwaggerDocs example_services empty_world ''widgets'' DefaultOutputFileName
          pod_docs_undocumented True =
        (empty_world, pod_docs_undocumented, Some (MissingDocsError 1 ''Pod.Status\<newline>''))"
    by (rule verify_gate_closed [OF example_check_undocumented]) simp_all
  then show ?thesis by (simp add: empty_world_def)
qed

text \<open>
  C5, amended. On a path that cannot be read, \<open>verifySwaggerDocs\<close> fails for both
  values of \<open>enforceComments\<close>, with the first failure in the order of its stages: the
  checker's own error if it has one; the MissingDocsError if the checker reports
  undocumented fields and \<open>enforceComments\<close> is true; the ReadError in every other
  case, that is whenever the completeness stage lets the call go on.
\<close>

theorem verify_unreadable_file:
  assumes "files w path = Inl e"
    and "VerifySwaggerDocsExist env docs = (docs1, listing, rc, err)"
  shows "outcome (verifySwaggerDocs env w pkg path docs enforce) =
           (case err of
              Some ce \<Rightarrow> Some (CheckerError ce)
            | None \<Rightarrow>
                if rc > 0 \<and> enforce then Some (MissingDocsError rc listing)
                else Some (ReadError e))"
proof (cases err)
  case (Some ce)
  with assms(2) show ?thesis by (simp add: verify_checker_fails)
next
  case None
  show ?thesis
  proof (cases "rc > 0 \<and> enforce")
    case True
    with assms(2) None show ?thesis by (simp add: verify_gate_closed)
  next
    case False
    then have gate: "rc > 0 \<longrightarrow> \<not> enforce" by simp
    from assms(2) None have chk: "VerifySwaggerDocsExist env docs = (docs1, listing, rc, None)"
      by simp
    from verify_gate_open [OF chk gate, of w pkg path] assms(1) None False
    show ?thesis by simp
  qed
qed

theorem verify_unreadable_file_witness:
  "files empty_world DefaultOutputFileName = Inl ''no such file or directory'' \<and>
   VerifySwaggerDocsExist example_services pod_docs = (pod_docs, [], 0, None) \<and>
   outcome (verifySwaggerDocs example_services empty_world ''widgets'' DefaultOutputFileName
     pod_docs True) = Some (ReadError ''no such file or directory'') \<and>
   outcome (verifySwaggerDocs example_services empty_world ''widgets'' DefaultOutputFileName
     pod_docs False) = Some (ReadError ''no such file or directory'')"
proof -
  have rd: "files empty_world DefaultOutputFileName = Inl ''no such file or directory''"
    by (simp add: empty_world_def)
  from verify_unreadable_file [OF rd example_check_documented, of "''widgets''" True]
    verify_unreadable_file [OF rd example_check_documented, of "''widgets''" False]
    rd example_check_documented
  show ?thesis by simp
qed

subsection \<open>The comparison with the baseline\<close>

lemma list_update_differs:
  assumes "i < length xs" and "c \<noteq> xs ! i"
  shows "xs[i := c] \<noteq> xs"
proof
  assume "xs[i := c] = xs"
  then have "xs[i := c] ! i = xs ! i" by simp
  with assms show False by simp
qed

text \<open>
  C2, as stated, fails: with \<open>enforceComments\<close> true and an undocumented field, the
  file is readable, regeneration succeeds and the file holds exactly the regenerated
  bytes, yet the call does not succeed; and on an empty file the call fails with the
  MissingDocsError, not the StaleError.
\<close>

theorem verify_matching_file_missing_docs:
  "files (WriteFile empty_world DefaultOutputFileName
            (assembled ''widgets'' ''// Pod.Spec: desired state\<newline>'')) DefaultOutputFileName =
     Inr (assembled ''widgets'' ''// Pod.Spec: desired state\<newline>'') \<and>
   snd (generateSwaggerDocs example_services ''widgets'' pod_docs_undocumented) =
     Inr (assembled ''widgets'' ''// Pod.Spec: desired state\<newline>'') \<and>
   outcome (verifySwaggerDocs example_services
     (WriteFile empty_world DefaultOutputFileName
        (assembled ''widgets'' ''// Pod.Spec: desired state\<newline>''))
     ''widgets'' DefaultOutputFileName pod_docs_undocumented True) =
     Some (MissingDocsError 1 ''Pod.Status\<newline>'') \<and>
   outcome (verifySwaggerDocs example_services
     (WriteFile empty_world DefaultOutputFileName [])
     ''widgets'' DefaultOutputFileName pod_docs_undocumented True) =
     Some (MissingDocsError 1 ''Pod.Status\<newline>'')"
proof -
  have v: "verifySwaggerDocs example_services w ''widgets'' DefaultOutputFileName
             pod_docs_undocumented True =
           (w, pod_docs_undocumented, Some (MissingDocsError 1 ''Pod.Status\<newline>''))" for w
    by (rule verify_gate_closed [OF example_check_undocumented]) simp_all
  show ?thesis
    by (simp add: v example_generate WriteFile_def)
qed

text \<open>
  C2, amended. When the completeness stage lets the call go on (the checker returns no
  error, and it reports no undocumented field or \<open>enforceComments\<close> is false) and
  regeneration from the records as the checker leaves them succeeds with bytes \<open>g\<close>,
  then on a readable file \<open>verifySwaggerDocs\<close> succeeds exactly when the file holds
  \<open>g\<close>, and fails with the StaleError otherwise. In particular, changing one byte of a
  file that verified makes the next call fail with the StaleError, and so does an empty
  file when \<open>g\<close> is not empty.
\<close>

theorem verify_compare_stage:
  assumes "VerifySwaggerDocsExist env docs = (docs1, listing, rc, None)"
    and "rc > 0 \<longrightarrow> \<not> enforce"
    and "snd (generateSwaggerDocs env pkg docs1) = Inr g"
  shows "(files w path = Inr data \<longrightarrow>
            outcome (verifySwaggerDocs env w pkg path docs enforce) =
              (if data = g then None else Some StaleError)) \<and>
         (files w path = Inr g \<and> i < length g \<and> c \<noteq> g ! i \<longrightarrow>
            outcome (verifySwaggerDocs env w pkg path docs enforce) = None \<and>
            outcome (verifySwaggerDocs env (WriteFile w path (g[i := c])) pkg path docs enforce) =
              Some StaleError) \<and>
         (g \<noteq> [] \<longrightarrow>
            outcome (verifySwaggerDocs env (WriteFile w path []) pkg path docs enforce) =
              Some StaleError)"
proof -
  note out = verify_gate_open [OF assms(1) assms(2), of _ pkg path]
  have a: "files w path = Inr data \<longrightarrow>
            outcome (verifySwaggerDocs env w pkg path docs enforce) =
              (if data = g then None else Some StaleError)"
    using out [of w] assms(3) by simp
  have b: "files w path = Inr g \<and> i < length g \<and> c \<noteq> g ! i \<longrightarrow>
            outcome (verifySwaggerDocs env w pkg path docs enforce) = None \<and>
            outcome (verifySwaggerDocs env (WriteFile w path (g[i := c])) pkg path docs enforce) =
              Some StaleError"
    using out [of w] out [of "WriteFile w path (g[i := c])"] assms(3)
    by (simp add: WriteFile_def list_update_differs)
  have c: "g \<noteq> [] \<longrightarrow>
            outcome (verifySwaggerDocs env (WriteFile w path []) pkg path docs enforce) =
              Some StaleError"
    using out [of "WriteFile w path []"] assms(3)
    by (auto simp add: WriteFile_def)
  from a b c show ?thesis by simp
qed

theorem verify_compare_stage_witness:
  "VerifySwaggerDocsExist example_services pod_docs_undocumented =
     (pod_docs_undocumented, ''Pod.Status\<newline>'', 1, None) \<and>
   snd (generateSwaggerDocs example_services ''widgets'' pod_docs_undocumented) =
     Inr (assembled ''widgets'' ''// Pod.Spec: desired state\<newline>'') \<and>
   files (WriteFile empty_world DefaultOutputFileName
            (assembled ''widgets'' ''// Pod.Spec: desired state\<newline>'')) DefaultOutputFileName =
     Inr (assembled ''widgets'' ''// Pod.Spec: desired state\<newline>'') \<and>
   0 < length (assembled ''widgets'' ''// Pod.Spec: desired state\<newline>'') \<and>
   CHR ''q'' \<noteq> assembled ''widgets'' ''// Pod.Spec: desired state\<newline>'' ! 0 \<and>
   outcome (verifySwaggerDocs example_services
     (WriteFile empty_world DefaultOutputFileName
        (assembled ''widgets'' ''// Pod.Spec: desired state\<newline>''))
     ''widgets'' DefaultOutputFileName pod_docs_undocumented False) = None \<and>
   outcome (verifySwaggerDocs example_services
     (WriteFile
        (WriteFile empty_world DefaultOutputFileName
           (assembled ''widgets'' ''// Pod.Spec: desired state\<newline>''))
        DefaultOutputFileName
        ((assembled ''widgets'' ''// Pod.Spec: desired state\<newline>'')[0 := CHR ''q'']))
     ''widgets'' DefaultOutputFileName pod_docs_undocumented False) = Some StaleError \<and>
   outcome (verifySwaggerDocs example_services
     (WriteFile
        (WriteFile empty_world DefaultOutputFileName
           (assembled ''widgets'' ''// Pod.Spec: desired state\<newline>''))
        DefaultOutputFileName [])
     ''widgets'' DefaultOutputFileName pod_docs_undocumented False) = Some StaleError"
proof -
  let ?g = "assembled ''widgets'' ''// Pod.Spec: desired state\<newline>''"
  let ?w = "WriteFile empty_world DefaultOutputFileName ?g"
  have gate: "(1::int) > 0 \<longrightarrow> \<not> False" by simp
  have gen: "snd (generateSwaggerDocs example_services ''widgets'' pod_docs_undocumented) = Inr ?g"
    by (simp add: example_generate)
  have rd: "files ?w DefaultOutputFileName = Inr ?g"
    by (simp add: WriteFile_def)
  have len: "0 < length ?g" and chr: "CHR ''q'' \<noteq> ?g ! 0" and ne: "?g \<noteq> []"
    by (simp_all add: assembled_def)
  from verify_compare_stage [OF example_check_undocumented gate gen,
      where w = ?w and path = DefaultOutputFileName and data = ?g and i = 0 and c = "CHR ''q''"]
    rd len chr ne
  have "outcome (verifySwaggerDocs example_services ?w ''widgets'' DefaultOutputFileName
          pod_docs_undocumented False) = None \<and>
        outcome (verifySwaggerDocs example_services
          (WriteFile ?w DefaultOutputFileName (?g[0 := CHR ''q'']))
          ''widgets'' DefaultOutputFileName pod_docs_undocumented False) = Some StaleError \<and>
        outcome (verifySwaggerDocs example_services
          (WriteFile ?w DefaultOutputFileName [])
          ''widgets'' DefaultOutputFileName pod_docs_undocumented False) = Some StaleError"
    by simp
  with example_check_undocumented gen rd len chr show ?thesis by simp
qed

subsection \<open>Generating, writing the file, verifying\<close>

lemma example_check_blanked:
  "VerifySwaggerDocsExist blanking_services pod_docs_blanked = (pod_docs_blanked, [], 0, None)"
  by (simp add: blanking_services_def example_services_def example_check_def
      pod_docs_blanked_def count_undocumented_def undocumented_def)

lemma blanking_check_undocumented:
  "VerifySwaggerDocsExist blanking_services pod_docs_undocumented =
     (pod_docs_undocumented, ''Pod.Status\<newline>'', 1, None)"
  using example_check_undocumented
  by (simp add: blanking_services_def)

lemma blanking_generate_undocumented:
  "snd (generateSwaggerDocs blanking_services ''widgets'' pod_docs_undocumented) =
     Inr (assembled ''widgets'' ''// Pod.Spec: desired state\<newline>'')"
  by (simp add: generateSwaggerDocs_def blanking_services_def blanking_render_def
      example_services_def example_render_def example_format_def
      pod_docs_undocumented_def assembled_def)

text \<open>
  C1, as stated, fails in two ways.

  First, generation succeeds on records with an undocumented field, the bytes are
  written to the file, and the call with \<open>enforceComments\<close> true on that file and the
  same records fails with the MissingDocsError.

  Second, with a renderer that changes the records in place, generation succeeds on
  fully documented records and leaves them changed; the bytes are written to the file,
  and the call on that file and the records the caller now holds regenerates other bytes
  and fails with the StaleError, for both values of \<open>enforceComments\<close>.
\<close>

theorem roundtrip_fails_at_gate_or_on_changed_records:
  "snd (generateSwaggerDocs example_services ''widgets'' pod_docs_undocumented) =
     Inr (assembled ''widgets'' ''// Pod.Spec: desired state\<newline>'') \<and>
   verifySwaggerDocs example_services
     (WriteFile empty_world ''zz.go'' (assembled ''widgets'' ''// Pod.Spec: desired state\<newline>''))
     ''widgets'' ''zz.go'' pod_docs_undocumented True =
     (WriteFile empty_world ''zz.go'' (assembled ''widgets'' ''// Pod.Spec: desired state\<newline>''),
      pod_docs_undocumented,
      Some (MissingDocsError 1 ''Pod.Status\<newline>'')) \<and>
   generateSwaggerDocs blanking_services ''widgets'' pod_docs =
     (pod_docs_blanked, Inr (assembled ''widgets'' ''// Pod.Spec: desired state\<newline>'')) \<and>
   outcome (verifySwaggerDocs blanking_services
     (WriteFile empty_world ''zz.go'' (assembled ''widgets'' ''// Pod.Spec: desired state\<newline>''))
     ''widgets'' ''zz.go'' (fst (generateSwaggerDocs blanking_services ''widgets'' pod_docs)) True) =
     Some StaleError \<and>
   outcome (verifySwaggerDocs blanking_services
     (WriteFile empty_world ''zz.go'' (assembled ''widgets'' ''// Pod.Spec: desired state\<newline>''))
     ''widgets'' ''zz.go'' (fst (generateSwaggerDocs blanking_services ''widgets'' pod_docs)) False) =
     Some StaleError"
proof -
  let ?b = "assembled ''widgets'' ''// Pod.Spec: desired state\<newline>''"
  let ?w = "WriteFile empty_world ''zz.go'' ?b"
  have gated: "verifySwaggerDocs example_services w ''widgets'' ''zz.go''
                 pod_docs_undocumented True =
          (w, pod_docs_undocumented, Some (MissingDocsError 1 ''Pod.Status\<newline>''))" for w
    by (rule verify_gate_closed [OF example_check_undocumented]) simp_all
  have gate: "(0::int) > 0 \<longrightarrow> \<not> enforce" for enforce by simp
  have rd: "files ?w ''zz.go'' = Inr ?b"
    by (simp add: WriteFile_def)
  have stale: "outcome (verifySwaggerDocs blanking_services ?w ''widgets'' ''zz.go''
                 pod_docs_blanked enforce) = Some StaleError" for enforce
    using verify_gate_open [OF example_check_blanked gate,
        where enforce = enforce and w = ?w and pkg = "''widgets''" and path = "''zz.go''"]
      rd blanked_bytes_differ
    by (simp add: blanking_generate_second)
  show ?thesis
    by (simp add: gated example_generate blanking_generate_first stale)
qed

text \<open>
  C1, amended. When generation succeeds on a package name and records \<open>docs\<close> with
  bytes \<open>b\<close>, and \<open>b\<close> is written to the file, then \<open>verifySwaggerDocs\<close> on that
  file, with the same package name and with \<open>docs\<close>, succeeds, provided that the
  completeness stage lets the call go on (the checker returns no error, and it reports
  no undocumented field or \<open>enforceComments\<close> is false) and that the checker leaves the
  records unchanged. The records given to \<open>verifySwaggerDocs\<close> are \<open>docs\<close> as
  generation was given them; the records the caller holds after generation are these
  when the renderer left them unchanged, and then the call on them succeeds too.
\<close>

theorem roundtrip_generate_verify:
  assumes "snd (generateSwaggerDocs env pkg docs) = Inr b"
    and "VerifySwaggerDocsExist env docs = (docs, listing, rc, None)"
    and "rc > 0 \<longrightarrow> \<not> enforce"
  shows "outcome (verifySwaggerDocs env (WriteFile w path b) pkg path docs enforce) = None \<and>
         (fst (WriteSwaggerDocFunc env docs) = docs \<longrightarrow>
            outcome (verifySwaggerDocs env (WriteFile w path b) pkg path
              (fst (generateSwaggerDocs env pkg docs)) enforce) = None)"
proof -
  have rd: "files (WriteFile w path b) path = Inr b"
    by (simp add: WriteFile_def)
  from verify_gate_open [OF assms(2) assms(3), of "WriteFile w path b" pkg path] rd assms(1)
  have direct: "outcome (verifySwaggerDocs env (WriteFile w path b) pkg path docs enforce) = None"
    by simp
  then show ?thesis
    by (simp add: generate_records)
qed

theorem roundtrip_generate_verify_witness:
  "snd (generateSwaggerDocs example_services ''widgets'' pod_docs_undocumented) =
     Inr (assembled ''widgets'' ''// Pod.Spec: desired state\<newline>'') \<and>
   VerifySwaggerDocsExist example_services pod_docs_undocumented =
     (pod_docs_undocumented, ''Pod.Status\<newline>'', 1, None) \<and>
   fst (WriteSwaggerDocFunc example_services pod_docs_undocumented) = pod_docs_undocumented \<and>
   outcome (verifySwaggerDocs example_services
     (WriteFile empty_world ''zz.go'' (assembled ''widgets'' ''// Pod.Spec: desired state\<newline>''))
     ''widgets'' ''zz.go'' pod_docs_undocumented False) = None \<and>
   outcome (verifySwaggerDocs example_services
     (WriteFile empty_world ''zz.go'' (assembled ''widgets'' ''// Pod.Spec: desired state\<newline>''))
     ''widgets'' ''zz.go''
     (fst (generateSwaggerDocs example_services ''widgets'' pod_docs_undocumented)) False) = None \<and>
   snd (generateSwaggerDocs blanking_services ''widgets'' pod_docs_undocumented) =
     Inr (assembled ''widgets'' ''// Pod.Spec: desired state\<newline>'') \<and>
   VerifySwaggerDocsExist blanking_services pod_docs_undocumented =
     (pod_docs_undocumented, ''Pod.Status\<newline>'', 1, None) \<and>
   outcome (verifySwaggerDocs blanking_services
     (WriteFile empty_world ''zz.go'' (assembled ''widgets'' ''// Pod.Spec: desired state\<newline>''))
     ''widgets'' ''zz.go'' pod_docs_undocumented False) = None"
proof -
  have gate: "(1::int) > 0 \<longrightarrow> \<not> False" by simp
  have gen: "snd (generateSwaggerDocs example_services ''widgets'' pod_docs_undocumented) =
               Inr (assembled ''widgets'' ''// Pod.Spec: desired state\<newline>'')"
    by (simp add: example_generate)
  have same: "fst (WriteSwaggerDocFunc example_services pod_docs_undocumented) =
                pod_docs_undocumented"
    by (simp add: example_services_def example_render_def)
  from roundtrip_generate_verify [OF gen example_check_undocumented gate,
      of empty_world "''zz.go''"]
    roundtrip_generate_verify [OF blanking_generate_undocumented blanking_check_undocumented gate,
      of empty_world "''zz.go''"]
    gen example_check_undocumented same
    blanking_generate_undocumented blanking_check_undocumented
  show ?thesis by simp
qed

end
